theory Spec2Isabelle
  imports Complex_Main "HOL-Library.Word"
begin

section \<open>JavaScript strings\<close>

text \<open>
  A JavaScript string is a sequence of UTF-16 code units. A code unit is modelled as a
  natural number, a string as the list of its code units; \<open>str\<close> turns a literal of
  the source into that list. Regular expressions without the \<open>u\<close> flag, \<open>slice\<close>,
  \<open>split\<close> and \<open>trim\<close> all work on code units.
\<close>

type_synonym jsstring = "nat list"

definition str :: "string \<Rightarrow> jsstring" where
  "str s = map of_char s"

text \<open>White space and line terminators of ECMAScript, the characters \<open>trim\<close> removes.\<close>

definition isWhiteSpace :: "nat \<Rightarrow> bool" where
  "isWhiteSpace c \<longleftrightarrow>
     c = 0x09 \<or> c = 0x0A \<or> c = 0x0B \<or> c = 0x0C \<or> c = 0x0D \<or> c = 0x20 \<or> c = 0xA0 \<or>
     c = 0x1680 \<or> (0x2000 \<le> c \<and> c \<le> 0x200A) \<or> c = 0x2028 \<or> c = 0x2029 \<or>
     c = 0x202F \<or> c = 0x205F \<or> c = 0x3000 \<or> c = 0xFEFF"

definition trim :: "jsstring \<Rightarrow> jsstring" where
  "trim s = rev (dropWhile isWhiteSpace (rev (dropWhile isWhiteSpace s)))"

text \<open>\<open>s.replace(/[...]/g, r)\<close> for a character class and a one-character replacement.\<close>

definition replaceClass :: "(nat \<Rightarrow> bool) \<Rightarrow> nat \<Rightarrow> jsstring \<Rightarrow> jsstring" where
  "replaceClass cls r s = map (\<lambda>c. if cls c then r else c) s"

text \<open>
  \<open>s.split(sep)\<close> for a string separator: the pieces between the occurrences of
  \<open>sep\<close>, found from left to right. An empty separator splits into code units.
\<close>

function splitOn :: "jsstring \<Rightarrow> jsstring \<Rightarrow> jsstring list" where
  "splitOn sep [] = [[]]"
| "splitOn sep (c # cs) =
     (if sep \<noteq> [] \<and> take (length sep) (c # cs) = sep
      then [] # splitOn sep (drop (length sep) (c # cs))
      else (case splitOn sep cs of [] \<Rightarrow> [[c]] | p # ps \<Rightarrow> (c # p) # ps))"
  by pat_completeness auto
termination
  by (relation "measure (\<lambda>(sep, s). length s)") (auto simp: neq_Nil_conv)

definition split :: "jsstring \<Rightarrow> jsstring \<Rightarrow> jsstring list" where
  "split s sep = (if sep = [] then map (\<lambda>c. [c]) s else splitOn sep s)"

text \<open>
  \<open>toLowerCase\<close> on the ASCII letters. The source only asks whether the lower-cased
  name ends with \<open>.xlsx\<close>; the Unicode mapping sends no character outside ASCII to
  \<open>.\<close>, \<open>x\<close>, \<open>l\<close> or \<open>s\<close>, so that test reads the ASCII part of the mapping only.
\<close>

definition toLowerCase :: "jsstring \<Rightarrow> jsstring" where
  "toLowerCase s = map (\<lambda>c. if 65 \<le> c \<and> c \<le> 90 then c + 32 else c) s"

definition endsWith :: "jsstring \<Rightarrow> jsstring \<Rightarrow> bool" where
  "endsWith s suffix \<longleftrightarrow>
     length suffix \<le> length s \<and> drop (length s - length suffix) s = suffix"

text \<open>The decimal digits of an integer, as template literals print a whole number.\<close>

function natToString :: "nat \<Rightarrow> jsstring" where
  "natToString n = (if n < 10 then [48 + n] else natToString (n div 10) @ [48 + n mod 10])"
  by pat_completeness auto
termination
  by (relation "measure id") auto

declare natToString.simps [simp del]

definition intToString :: "int \<Rightarrow> jsstring" where
  "intToString i = (if i < 0 then 45 # natToString (nat (- i)) else natToString (nat i))"

text \<open>\<open>v || d\<close> for an optional string: an absent or empty value gives the default.\<close>

definition orElse :: "jsstring option \<Rightarrow> jsstring \<Rightarrow> jsstring" where
  "orElse v d = (case v of None \<Rightarrow> d | Some s \<Rightarrow> if s = [] then d else s)"

section \<open>Process environment and clock\<close>

record environment =
  OPENAI_API_KEY :: "jsstring option"
  ANTHROPIC_API_KEY :: "jsstring option"
  AWS_S3_BUCKET :: "jsstring option"
  AWS_REGION :: "jsstring option"
  PG_DATABASE :: "jsstring option"

text \<open>
  What \<open>new Date()\<close> gives when the export runs: \<open>toISOString()\<close> and \<open>getTime()\<close>.
\<close>

record clock =
  toISOString :: jsstring
  getTime :: int

section \<open>Names of an export\<close>

definition invalidSheetChar :: "nat \<Rightarrow> bool" where
  \<comment> \<open>the class \<open>[:\\/?*\[\]]\<close>\<close>
  "invalidSheetChar c \<longleftrightarrow>
     c = of_char CHR '':'' \<or> c = 0x5C \<or> c = of_char CHR ''/'' \<or> c = of_char CHR ''?'' \<or>
     c = of_char CHR ''*'' \<or> c = of_char CHR ''['' \<or> c = of_char CHR '']''"

definition cleaned :: "jsstring option \<Rightarrow> jsstring" where
  "cleaned name = trim (replaceClass invalidSheetChar (of_char CHR '' '') (orElse name (str ''Report'')))"

definition sanitizeSheetName :: "jsstring option \<Rightarrow> jsstring" where
  "sanitizeSheetName name = orElse (Some (take 31 (cleaned name))) (str ''Report'')"

definition safeFilenameChar :: "nat \<Rightarrow> bool" where
  \<comment> \<open>the class \<open>[a-zA-Z0-9._-]\<close>\<close>
  "safeFilenameChar c \<longleftrightarrow>
     (of_char CHR ''a'' \<le> c \<and> c \<le> of_char CHR ''z'') \<or>
     (of_char CHR ''A'' \<le> c \<and> c \<le> of_char CHR ''Z'') \<or>
     (of_char CHR ''0'' \<le> c \<and> c \<le> of_char CHR ''9'') \<or>
     c = of_char CHR ''.'' \<or> c = of_char CHR ''_'' \<or> c = of_char CHR ''-''"

definition replaceUnsafe :: "jsstring \<Rightarrow> jsstring" where
  "replaceUnsafe s = replaceClass (\<lambda>c. \<not> safeFilenameChar c) (of_char CHR ''_'') s"

definition base :: "clock \<Rightarrow> jsstring \<Rightarrow> jsstring" where
  "base clk name =
     (if endsWith (toLowerCase name) (str ''.xlsx'')
      then (case split name (str ''.xlsx'') of [] \<Rightarrow> str ''undefined'' | p # _ \<Rightarrow> p)
             @ str ''_'' @ intToString (getTime clk) @ str ''.xlsx''
      else name @ str ''_'' @ intToString (getTime clk) @ str ''.xlsx'')"

definition sanitizeFilename :: "clock \<Rightarrow> jsstring \<Rightarrow> jsstring" where
  "sanitizeFilename clk name = take 200 (replaceUnsafe (base clk name))"

definition isoDate :: "clock \<Rightarrow> jsstring" where
  "isoDate clk = take 10 (toISOString clk)"

definition dataSourceId :: "environment \<Rightarrow> jsstring" where
  \<comment> \<open>\<open>process.env.PG_DATABASE || 'db'\<close>\<close>
  "dataSourceId env = orElse (PG_DATABASE env) (str ''db'')"

definition defaultName :: "environment \<Rightarrow> clock \<Rightarrow> jsstring" where
  "defaultName env clk = str ''report_'' @ dataSourceId env @ str ''_'' @ isoDate clk @ str ''.xlsx''"

definition finalFilename :: "environment \<Rightarrow> clock \<Rightarrow> jsstring option \<Rightarrow> jsstring" where
  "finalFilename env clk filename = sanitizeFilename clk (orElse filename (defaultName env clk))"

definition objectKey :: "environment \<Rightarrow> clock \<Rightarrow> jsstring option \<Rightarrow> jsstring" where
  "objectKey env clk filename =
     str ''reports/'' @ dataSourceId env @ str ''/'' @ finalFilename env clk filename"

section \<open>Model provider registry\<close>

record ChatParams =
  chat_model :: jsstring
  temperature :: int
  apiKey :: jsstring
  metadata_provider :: jsstring

datatype llm = ChatOpenAI ChatParams | ChatAnthropic ChatParams

record LangChainService =
  openaiLLM :: "llm option"
  anthropicLLM :: "llm option"

text \<open>
  \<open>initializeLLMs\<close>: a backend is created for each provider whose API key is set (a
  key that is absent or empty is falsy); the other field stays undefined.
\<close>

definition initializeLLMs :: "environment \<Rightarrow> LangChainService" where
  "initializeLLMs env =
     \<lparr>openaiLLM =
        (case OPENAI_API_KEY env of
           None \<Rightarrow> None
         | Some openaiApiKey \<Rightarrow>
             if openaiApiKey = [] then None
             else Some (ChatOpenAI \<lparr>chat_model = str ''gpt-4.1-mini-2025-04-14'', temperature = 0,
                                    apiKey = openaiApiKey, metadata_provider = str ''openai''\<rparr>)),
      anthropicLLM =
        (case ANTHROPIC_API_KEY env of
           None \<Rightarrow> None
         | Some anthropicApiKey \<Rightarrow>
             if anthropicApiKey = [] then None
             else Some (ChatAnthropic \<lparr>chat_model = str ''claude-3-haiku-20240307'', temperature = 0,
                                       apiKey = anthropicApiKey, metadata_provider = str ''anthropic''\<rparr>))\<rparr>"

text \<open>
  \<open>getLLM\<close>: the result is \<open>None\<close> when the source returns \<open>undefined\<close>, which it
  does when no backend was initialised.
\<close>

definition firstAvailable :: "LangChainService \<Rightarrow> llm option" where
  \<comment> \<open>\<open>this.openaiLLM || this.anthropicLLM\<close>\<close>
  "firstAvailable svc = (case openaiLLM svc of Some l \<Rightarrow> Some l | None \<Rightarrow> anthropicLLM svc)"

definition getLLM :: "LangChainService \<Rightarrow> jsstring option \<Rightarrow> llm option" where
  "getLLM svc prov =
     (if prov = Some (str ''openai'') then
        (case openaiLLM svc of Some l \<Rightarrow> Some l | None \<Rightarrow> firstAvailable svc)
      else if prov = Some (str ''anthropic'') then
        (case anthropicLLM svc of Some l \<Rightarrow> Some l | None \<Rightarrow> firstAvailable svc)
      else firstAvailable svc)"

record LLMDescriptor =
  id' :: jsstring
  name :: jsstring
  provider :: jsstring
  model :: jsstring
  isAvailable :: bool

definition getAvailableLLMs :: "LangChainService \<Rightarrow> LLMDescriptor list" where
  "getAvailableLLMs svc =
     (case openaiLLM svc of
        None \<Rightarrow> []
      | Some _ \<Rightarrow> [\<lparr>id' = str ''openai'', name = str ''OpenAI GPT-4.1 Mini'', provider = str ''openai'',
                    model = str ''gpt-4.1-mini-2025-04-14'', isAvailable = True\<rparr>]) @
     (case anthropicLLM svc of
        None \<Rightarrow> []
      | Some _ \<Rightarrow> [\<lparr>id' = str ''anthropic'', name = str ''Anthropic Claude 3 Haiku'',
                    provider = str ''anthropic'', model = str ''claude-3-haiku-20240307'',
                    isAvailable = True\<rparr>])"

section \<open>Errors\<close>

text \<open>
  A thrown \<open>Error\<close> object: its \<open>name\<close> and its \<open>message\<close>. Every \<open>throw\<close> and
  every rejected promise of the source is an \<open>Inl\<close> result of the model.
\<close>

record js_error =
  errorName :: jsstring
  message :: jsstring

definition newError :: "jsstring \<Rightarrow> js_error" where
  "newError msg = \<lparr>errorName = str ''Error'', message = msg\<rparr>"

definition errorToString :: "js_error \<Rightarrow> jsstring" where
  \<comment> \<open>\<open>String(error)\<close>, that is \<open>Error.prototype.toString\<close>\<close>
  "errorToString e =
     (if errorName e = [] then message e
      else if message e = [] then errorName e
      else errorName e @ str '': '' @ message e)"

section \<open>Connection resolver\<close>

record UserDatasourceConfig =
  host :: jsstring
  port :: int
  database :: jsstring
  username :: jsstring
  password :: jsstring
  type :: jsstring

record SqlDatabaseOptionsParams =
  appDataSourceOptions :: UserDatasourceConfig
  includesTables :: "jsstring list option"
  ignoreTables :: "jsstring list option"

text \<open>
  The calls the resolver makes to the database library, in order. The library is not part
  of the repository: it is a parameter of the model. What it answers may depend on the
  calls made before, so each call receives the list of the earlier ones.
\<close>

datatype db_event = Connect SqlDatabaseOptionsParams | Run jsstring

record 'db driver =
  fromOptionsParams :: "db_event list \<Rightarrow> SqlDatabaseOptionsParams \<Rightarrow> js_error + 'db"
  run :: "db_event list \<Rightarrow> 'db \<Rightarrow> jsstring \<Rightarrow> js_error + jsstring"

definition informationSchemaPublic :: jsstring where
  "informationSchemaPublic =
     [10] @ str ''          SELECT table_name '' @
     [10] @ str ''          FROM information_schema.tables '' @
     [10] @ str ''          WHERE table_schema = 'public' '' @
     [10] @ str ''          AND table_type = 'BASE TABLE'' @ [39] @
     [10] @ str ''        ''"

definition getTablesQuery :: "jsstring \<Rightarrow> jsstring" where
  "getTablesQuery dbType =
     (if dbType = str ''postgres'' then informationSchemaPublic
      else if dbType = str ''mysql'' then
        [10] @ str ''          SELECT table_name '' @
        [10] @ str ''          FROM information_schema.tables '' @
        [10] @ str ''          WHERE table_schema = DATABASE()'' @
        [10] @ str ''          AND table_type = 'BASE TABLE'' @ [39] @
        [10] @ str ''        ''
      else if dbType = str ''sqlite'' then
        [10] @ str ''          SELECT name as table_name '' @
        [10] @ str ''          FROM sqlite_master '' @
        [10] @ str ''          WHERE type = 'table'' @ [39] @
        [10] @ str ''        ''
      else if dbType = str ''mssql'' then
        [10] @ str ''          SELECT table_name '' @
        [10] @ str ''          FROM information_schema.tables '' @
        [10] @ str ''          WHERE table_type = 'BASE TABLE'' @ [39] @
        [10] @ str ''        ''
      else informationSchemaPublic)"

definition getTestQuery :: "jsstring \<Rightarrow> jsstring" where
  "getTestQuery dbType =
     (if dbType = str ''postgres'' \<or> dbType = str ''mysql'' \<or> dbType = str ''sqlite'' \<or>
         dbType = str ''mssql''
      then str ''SELECT 1 as test'' else str ''SELECT 1 as test'')"

text \<open>
  The parsing of the enumeration result:
  \<^verbatim>\<open>tablesResult.split('\n').slice(1).map((line) => line.trim())
    .filter((line) => line && line !== '')
    .map((line) => line.split('|')[0]?.trim()).filter((table) => table)\<close>
  An element that is \<open>undefined\<close> is \<open>None\<close>; the last filter keeps the truthy ones.
\<close>

definition leadingColumn :: "jsstring \<Rightarrow> jsstring option" where
  \<comment> \<open>\<open>line.split('|')[0]?.trim()\<close>\<close>
  "leadingColumn line = (case split line (str ''|'') of [] \<Rightarrow> None | p # _ \<Rightarrow> Some (trim p))"

definition truthyNames :: "jsstring option list \<Rightarrow> jsstring list" where
  "truthyNames ts = concat (map (\<lambda>t. case t of None \<Rightarrow> [] | Some s \<Rightarrow> if s = [] then [] else [s]) ts)"

definition parseTables :: "jsstring \<Rightarrow> jsstring list" where
  "parseTables tablesResult =
     truthyNames
       (map leadingColumn
         (filter (\<lambda>line. line \<noteq> [] \<and> line \<noteq> str '''')
           (map trim (drop 1 (split tablesResult [10])))))"

text \<open>
  The \<open>try\<close> block around the enumeration: a failure of the query leaves
  \<open>existingTables\<close> empty.
\<close>

definition existingTables :: "'db driver \<Rightarrow> db_event list \<Rightarrow> 'db \<Rightarrow> jsstring \<Rightarrow> jsstring list" where
  "existingTables drv calls basicSqlDatabase dbType =
     (case run drv calls basicSqlDatabase (getTablesQuery dbType) of
        Inl error \<Rightarrow> []
      | Inr tablesResult \<Rightarrow> parseTables tablesResult)"

definition basicOptions :: "UserDatasourceConfig \<Rightarrow> SqlDatabaseOptionsParams" where
  "basicOptions config =
     \<lparr>appDataSourceOptions =
        \<lparr>host = host config, port = port config, database = database config,
         username = username config, password = password config, type = type config\<rparr>,
      includesTables = None,
      ignoreTables = Some []\<rparr>"

definition options :: "UserDatasourceConfig \<Rightarrow> SqlDatabaseOptionsParams" where
  "options config =
     \<lparr>appDataSourceOptions =
        \<lparr>host = host config, port = port config, database = database config,
         username = username config, password = password config, type = type config\<rparr>,
      includesTables = None,
      ignoreTables = None\<rparr>"

text \<open>
  \<open>getSqlDatabase\<close> returns the final connection or the error thrown, and the list
  of calls extended by those it made.
\<close>

definition getSqlDatabase ::
  "'db driver \<Rightarrow> UserDatasourceConfig option \<Rightarrow> db_event list \<Rightarrow> (js_error + 'db) \<times> db_event list" where
  "getSqlDatabase drv connectionConfig calls =
     (case connectionConfig of
        None \<Rightarrow>
          (Inl (newError (str ''Database connection configuration is required. Please provide valid connection details.'')),
           calls)
      | Some config \<Rightarrow>
          (case fromOptionsParams drv calls (basicOptions config) of
             Inl e \<Rightarrow> (Inl e, calls @ [Connect (basicOptions config)])
           | Inr basicSqlDatabase \<Rightarrow>
               let calls1 = calls @ [Connect (basicOptions config)];
                   existing = existingTables drv calls1 basicSqlDatabase (type config);
                   calls2 = calls1 @ [Run (getTablesQuery (type config))]
               in (case fromOptionsParams drv calls2 (options config) of
                     Inl e \<Rightarrow> (Inl e, calls2 @ [Connect (options config)])
                   | Inr sqlDatabase \<Rightarrow>
                       let calls3 = calls2 @ [Connect (options config)]
                       in (case run drv calls3 sqlDatabase (getTestQuery (type config)) of
                             Inl e \<Rightarrow> (Inl e, calls3 @ [Run (getTestQuery (type config))])
                           | Inr _ \<Rightarrow> (Inr sqlDatabase, calls3 @ [Run (getTestQuery (type config))])))))"

section \<open>Export tool\<close>

text \<open>
  The values the tool can receive as \<open>data\<close> at run time. A finite number is a
  rational: every finite double is one.
\<close>

datatype js_value =
    JUndefined
  | JNull
  | JBoolean bool
  | JNumber rat
  | JNaN
  | JInfinity bool
  | JString jsstring
  | JArray "js_value list"
  | JObject "(jsstring \<times> js_value) list"

fun truthy :: "js_value \<Rightarrow> bool" where
  "truthy JUndefined = False"
| "truthy JNull = False"
| "truthy (JBoolean b) = b"
| "truthy (JNumber q) = (q \<noteq> 0)"
| "truthy JNaN = False"
| "truthy (JInfinity _) = True"
| "truthy (JString s) = (s \<noteq> [])"
| "truthy (JArray _) = True"
| "truthy (JObject _) = True"

record export_args =
  data :: js_value
  filename :: "jsstring option"
  sheetName :: "jsstring option"

type_synonym buffer = "8 word list"

record PutObjectCommand =
  Bucket :: jsstring
  Key :: jsstring
  Body :: buffer
  ContentType :: jsstring
  CacheControl :: jsstring
  ACL :: jsstring

text \<open>
  The calls the tool makes to the object storage and to the timer: \<open>s3Client.send\<close>
  and the \<open>setTimeout\<close> delay in milliseconds. The storage client is a parameter of the
  model: it answers a \<open>send\<close> from the calls made before. Console output is not part
  of the model.
\<close>

datatype s3_event = Send PutObjectCommand | Sleep nat

type_synonym s3Client = "s3_event list \<Rightarrow> PutObjectCommand \<Rightarrow> js_error + unit"

text \<open>
  The spreadsheet library, a parameter too: \<open>book_new\<close>, \<open>json_to_sheet(data)\<close>,
  \<open>book_append_sheet(wb, ws, finalSheetName)\<close> and \<open>write\<close> give the buffer of the
  workbook or throw.
\<close>

type_synonym xlsx = "js_value list \<Rightarrow> jsstring \<Rightarrow> js_error + buffer"

definition maxRetries :: nat where
  "maxRetries = 3"

text \<open>
  The retry loop, from \<open>uploadAttempts\<close> failed attempts on. Leaving the loop by
  \<open>break\<close> or by its condition is \<open>Inr ()\<close>; the \<open>throw\<close> is \<open>Inl\<close>.
\<close>

function uploadLoop ::
  "s3Client \<Rightarrow> PutObjectCommand \<Rightarrow> nat \<Rightarrow> s3_event list \<Rightarrow> (js_error + unit) \<times> s3_event list" where
  "uploadLoop s3 putObjectCommand uploadAttempts calls =
     (if uploadAttempts < maxRetries then
        (case s3 calls putObjectCommand of
           Inr _ \<Rightarrow> (Inr (), calls @ [Send putObjectCommand])
         | Inl uploadError \<Rightarrow>
             if uploadAttempts + 1 \<ge> maxRetries then
               (Inl (newError (str ''S3 upload failed after '' @ natToString maxRetries @
                               str '' attempts: '' @ message uploadError)),
                calls @ [Send putObjectCommand])
             else
               uploadLoop s3 putObjectCommand (uploadAttempts + 1)
                 (calls @ [Send putObjectCommand, Sleep (2 ^ (uploadAttempts + 1) * 1000)]))
      else (Inr (), calls))"
  by pat_completeness auto
termination
  by (relation "measure (\<lambda>(s3, cmd, uploadAttempts, calls). maxRetries - uploadAttempts)") auto

declare uploadLoop.simps [simp del]

text \<open>
  The size of the file in megabytes and its two-decimal rendering. The buffer length is
  a whole number below \<open>2^53\<close> and the divisor a power of two, so the double of the
  source is this rational exactly; \<open>toFixed(2)\<close> rounds it to the nearest hundredth,
  upwards on a tie.
\<close>

definition fileSizeMB :: "buffer \<Rightarrow> rat" where
  "fileSizeMB buf = of_nat (length buf) / (1024 * 1024)"

definition twoDigits :: "nat \<Rightarrow> jsstring" where
  "twoDigits n = [48 + n div 10 mod 10, 48 + n mod 10]"

definition toFixed2 :: "rat \<Rightarrow> jsstring" where
  "toFixed2 x =
     (let n = nat \<lfloor>x * 100 + 1 / 2\<rfloor> in natToString (n div 100) @ str ''.'' @ twoDigits (n mod 100))"

datatype tool_output =
    Text jsstring
  | JsonUrlFilename jsstring jsstring
    \<comment> \<open>the text \<open>JSON.stringify({url, filename})\<close>, by its two members\<close>

definition noDataError :: jsstring where
  \<open>noDataError = str ''Error: No data parameter provided. You must pass the actual query results as the "data" parameter. First execute a SQL query to get results, then pass those results to this tool.''\<close>

definition notArrayError :: jsstring where
  \<open>notArrayError = str ''Error: Data must be a non-empty array of objects. Each object should represent a row from your SQL query results. Example: [{"column1": "value1", "column2": "value2"}]''\<close>

definition failedMessage :: "js_error \<Rightarrow> jsstring" where
  \<comment> \<open>the outer \<open>catch\<close>: \<open>error?.message || String(error)\<close>\<close>
  "failedMessage error =
     str ''Failed to generate and upload Excel file to S3: '' @
     orElse (Some (message error)) (errorToString error)"

definition tooLargeMessage :: "buffer \<Rightarrow> jsstring" where
  "tooLargeMessage buf =
     str ''File too large ('' @ toFixed2 (fileSizeMB buf) @
     str ''MB). Please limit your query results to reduce file size.''"

definition putObjectCommand :: "environment \<Rightarrow> clock \<Rightarrow> export_args \<Rightarrow> buffer \<Rightarrow> PutObjectCommand" where
  "putObjectCommand env clk args buf =
     \<lparr>Bucket = orElse (AWS_S3_BUCKET env) (str ''reporting-agent-files''),
      Key = objectKey env clk (filename args),
      Body = buf,
      ContentType = str ''application/vnd.openxmlformats-officedocument.spreadsheetml.sheet'',
      CacheControl = str ''public, max-age=3600'',
      ACL = str ''public-read''\<rparr>"

definition publicUrl :: "environment \<Rightarrow> clock \<Rightarrow> export_args \<Rightarrow> jsstring" where
  "publicUrl env clk args =
     str ''https://'' @ orElse (AWS_S3_BUCKET env) (str ''reporting-agent-files'') @ str ''.s3.'' @
     orElse (AWS_REGION env) (str ''us-east-1'') @ str ''.amazonaws.com/'' @
     objectKey env clk (filename args)"

text \<open>The steps of \<open>func\<close> after the two checks of \<open>data\<close>.\<close>

definition exportRows ::
  "environment \<Rightarrow> clock \<Rightarrow> xlsx \<Rightarrow> s3Client \<Rightarrow> export_args \<Rightarrow> js_value list \<Rightarrow> s3_event list \<Rightarrow>
   tool_output \<times> s3_event list" where
  "exportRows env clk xlsxWrite s3 args rows calls =
     (case xlsxWrite rows (sanitizeSheetName (sheetName args)) of
        Inl error \<Rightarrow> (Text (failedMessage error), calls)
      | Inr buf \<Rightarrow>
          if fileSizeMB buf > 50 then (Text (tooLargeMessage buf), calls)
          else
            (case uploadLoop s3 (putObjectCommand env clk args buf) 0 calls of
               (Inl error, calls') \<Rightarrow> (Text (failedMessage error), calls')
             | (Inr _, calls') \<Rightarrow>
                 (JsonUrlFilename (publicUrl env clk args) (finalFilename env clk (filename args)),
                  calls')))"

definition func ::
  "environment \<Rightarrow> clock \<Rightarrow> xlsx \<Rightarrow> s3Client \<Rightarrow> export_args \<Rightarrow> s3_event list \<Rightarrow>
   tool_output \<times> s3_event list" where
  "func env clk xlsxWrite s3 args calls =
     (if \<not> truthy (data args) then (Text noDataError, calls)
      else
        (case data args of
           JArray rows \<Rightarrow>
             if length rows = 0 then (Text notArrayError, calls)
             else exportRows env clk xlsxWrite s3 args rows calls
         | _ \<Rightarrow> (Text notArrayError, calls)))"





section \<open>Statements of the specification\<close>

text \<open>
  The selection policy in the specification's words: the registry lists the registered
  backends in the fixed priority order, OpenAI then Anthropic; a \<open>providerId\<close> that
  names a registered backend selects it, any other (or none) selects the first of the
  registry.
\<close>

definition registered :: "LangChainService \<Rightarrow> (jsstring \<times> llm) list" where
  "registered svc =
     (case openaiLLM svc of None \<Rightarrow> [] | Some l \<Rightarrow> [(str ''openai'', l)]) @
     (case anthropicLLM svc of None \<Rightarrow> [] | Some l \<Rightarrow> [(str ''anthropic'', l)])"

definition selectBackend :: "(jsstring \<times> llm) list \<Rightarrow> jsstring option \<Rightarrow> llm option" where
  "selectBackend registry providerId =
     (case (case providerId of None \<Rightarrow> None | Some i \<Rightarrow> map_of registry i) of
        Some l \<Rightarrow> Some l
      | None \<Rightarrow> (case registry of [] \<Rightarrow> None | (_, l) # _ \<Rightarrow> Some l))"

text \<open>A credential is configured when the variable is set and not empty.\<close>

definition configured :: "jsstring option \<Rightarrow> bool" where
  "configured k \<longleftrightarrow> k \<noteq> None \<and> k \<noteq> Some []"


text \<open>
  The number of \<open>send\<close> calls in a list of calls to the storage, and the options of
  the connections in a list of calls to the database library.
\<close>

definition sends :: "s3_event list \<Rightarrow> nat" where
  "sends calls = length (filter (\<lambda>e. case e of Send _ \<Rightarrow> True | Sleep _ \<Rightarrow> False) calls)"

definition connects :: "db_event list \<Rightarrow> SqlDatabaseOptionsParams list" where
  "connects calls = concat (map (\<lambda>e. case e of Connect opts \<Rightarrow> [opts] | Run _ \<Rightarrow> []) calls)"

text \<open>
  The parser in the specification's words: the lines of the result, the header row
  skipped, blank lines discarded, and of each remaining row the leading column, up to the
  first \<open>|\<close>, as the table name (white space around it removed; a row whose leading
  column is empty names no table).
\<close>

fun linesOf :: "jsstring \<Rightarrow> jsstring list" where
  "linesOf [] = [[]]"
| "linesOf (c # cs) =
     (if c = 10 then [] # linesOf cs
      else (case linesOf cs of [] \<Rightarrow> [[c]] | l # ls \<Rightarrow> (c # l) # ls))"

definition blank :: "jsstring \<Rightarrow> bool" where
  "blank line \<longleftrightarrow> list_all isWhiteSpace line"

definition firstColumn :: "jsstring \<Rightarrow> jsstring" where
  "firstColumn line = trim (takeWhile (\<lambda>c. c \<noteq> of_char CHR ''|'') line)"

definition listBaseTables :: "jsstring \<Rightarrow> jsstring list" where
  "listBaseTables out =
     filter (\<lambda>table. table \<noteq> []) (map firstColumn (filter (\<lambda>line. \<not> blank line) (tl (linesOf out))))"

text \<open>
  A turn is served with the SQL toolkit of its connection (\<open>createSqlToolkit\<close>) and with
  the export tool, which \<open>createExcelExportTool()\<close> creates without the connection. The
  object key of an export made in a turn is therefore computed from the process
  environment, the clock and the arguments of the tool; the connection of the turn is
  not an argument.
\<close>

record turn =
  turnConnection :: UserDatasourceConfig
  turnExport :: export_args

definition turnObjectKey :: "environment \<Rightarrow> clock \<Rightarrow> turn \<Rightarrow> jsstring" where
  "turnObjectKey env clk t = Key (putObjectCommand env clk (turnExport t) [])"

section \<open>Example inputs\<close>

definition exampleEnv :: environment where
  "exampleEnv = \<lparr>OPENAI_API_KEY = Some (str ''sk-first''), ANTHROPIC_API_KEY = None,
     AWS_S3_BUCKET = None, AWS_REGION = None, PG_DATABASE = None\<rparr>"

definition exampleClock :: clock where
  "exampleClock = \<lparr>toISOString = str ''2025-11-22T10:00:00.000Z'', getTime = 1763805600000\<rparr>"


text \<open>
  Storage clients: one that fails until two \<open>send\<close> calls have been made and then
  succeeds, one that always fails.
\<close>

definition failsTwice :: s3Client where
  "failsTwice calls cmd = (if sends calls < 2 then Inl (newError (str ''socket hang up'')) else Inr ())"

definition alwaysFails :: s3Client where
  "alwaysFails calls cmd = Inl (newError (str ''socket hang up''))"

definition exampleArgs :: export_args where
  "exampleArgs = \<lparr>data = JArray [JObject [(str ''status'', JString (str ''open''))]],
     filename = None, sheetName = None\<rparr>"

text \<open>A spreadsheet library whose workbook is one byte over 50 MB.\<close>

definition largeBuffer :: buffer where
  "largeBuffer = replicate 52428801 0"

definition largeWorkbook :: xlsx where
  "largeWorkbook rows sheet = Inr largeBuffer"

definition exampleCommand :: PutObjectCommand where
  "exampleCommand = putObjectCommand exampleEnv exampleClock exampleArgs [80, 75, 3]"

definition salesConfig :: UserDatasourceConfig where
  "salesConfig = \<lparr>host = str ''db.internal'', port = 5432, database = str ''sales'',
     username = str ''reporting'', password = str ''s3cret'', type = str ''postgres''\<rparr>"

text \<open>Two turns of one process, on the databases \<open>sales\<close> and \<open>hr\<close>, with the same export.\<close>

definition salesTurn :: turn where
  "salesTurn = \<lparr>turnConnection = salesConfig, turnExport = exampleArgs\<rparr>"

definition hrTurn :: turn where
  "hrTurn = \<lparr>turnConnection = salesConfig\<lparr>database := str ''hr''\<rparr>, turnExport = exampleArgs\<rparr>"

text \<open>
  An example of the database library, for a PostgreSQL database with one base table,
  \<open>orders\<close>, and one view, \<open>order_totals\<close>. As in the library, a connection records
  all the tables and views it finds together with the two lists of its options, and the
  tables it offers are all of them, restricted to \<open>includesTables\<close> when that list is
  not empty and without \<open>ignoreTables\<close>. The enumeration query lists base tables only;
  its result is given in the layout the parser reads, a header row and one row for each
  table.
\<close>

record SqlDatabase =
  allTables :: "jsstring list"
  dbIncludesTables :: "jsstring list"
  dbIgnoreTables :: "jsstring list"

definition usableTables :: "SqlDatabase \<Rightarrow> jsstring list" where
  "usableTables db =
     (let selected =
            (if dbIncludesTables db \<noteq> [] then filter (\<lambda>t. t \<in> set (dbIncludesTables db)) (allTables db)
             else allTables db)
      in if dbIgnoreTables db \<noteq> [] then filter (\<lambda>t. t \<notin> set (dbIgnoreTables db)) selected
         else selected)"

definition ordersDatabase :: "SqlDatabase driver" where
  "ordersDatabase =
     \<lparr>fromOptionsParams = (\<lambda>calls opts.
        Inr \<lparr>allTables = [str ''orders'', str ''order_totals''],
             dbIncludesTables = (case includesTables opts of None \<Rightarrow> [] | Some ts \<Rightarrow> ts),
             dbIgnoreTables = (case ignoreTables opts of None \<Rightarrow> [] | Some ts \<Rightarrow> ts)\<rparr>),
      run = (\<lambda>calls db query.
        if query = getTablesQuery (str ''postgres'')
        then Inr (str ''table_name'' @ [10] @ str ''orders'')
        else Inr (str ''test'' @ [10] @ str ''1''))\<rparr>"

text \<open>A database whose catalog the user may not read: the enumeration query fails.\<close>

definition deniedCatalog :: "SqlDatabase driver" where
  "deniedCatalog =
     \<lparr>fromOptionsParams = fromOptionsParams ordersDatabase,
      run = (\<lambda>calls db query.
        if query = str ''SELECT 1 as test'' then Inr (str ''test'' @ [10] @ str ''1'')
        else Inl (newError (str ''permission denied for relation tables'')))\<rparr>"

section \<open>Model provider registry: selection and listing\<close>

lemma openai_neq_anthropic: "str ''openai'' \<noteq> str ''anthropic''"
  by (simp add: str_def)

text \<open>
  C7. Backend selection is deterministic: \<open>getLLM\<close> returns the backend that
  \<open>providerId\<close> names when it is registered, and otherwise the first registered backend
  in the order OpenAI, Anthropic (nothing when none is registered).
\<close>

theorem getLLM_selection_policy:
  "getLLM svc providerId = selectBackend (registered svc) providerId"
proof (cases "openaiLLM svc")
  case None
  then show ?thesis
    using openai_neq_anthropic
    by (cases "anthropicLLM svc"; cases providerId)
       (auto simp: getLLM_def selectBackend_def registered_def firstAvailable_def)
next
  case (Some l)
  then show ?thesis
    using openai_neq_anthropic
    by (cases "anthropicLLM svc"; cases providerId)
       (auto simp: getLLM_def selectBackend_def registered_def firstAvailable_def)
qed

text \<open>
  C10. \<open>getAvailableLLMs\<close> does not expose credentials: two environments that
  configure the same providers, with whatever key values, give the same descriptors.
\<close>

theorem getAvailableLLMs_independent_of_credentials:
  assumes "configured (OPENAI_API_KEY env1) = configured (OPENAI_API_KEY env2)"
    and "configured (ANTHROPIC_API_KEY env1) = configured (ANTHROPIC_API_KEY env2)"
  shows "getAvailableLLMs (initializeLLMs env1) = getAvailableLLMs (initializeLLMs env2)"
proof -
  have openai: "(openaiLLM (initializeLLMs env) = None) = (\<not> configured (OPENAI_API_KEY env))" for env
    by (simp add: initializeLLMs_def configured_def split: option.split)
  have anthropic: "(anthropicLLM (initializeLLMs env) = None) = (\<not> configured (ANTHROPIC_API_KEY env))" for env
    by (simp add: initializeLLMs_def configured_def split: option.split)
  have shape: "getAvailableLLMs svc =
      (if openaiLLM svc = None then [] else
         [\<lparr>id' = str ''openai'', name = str ''OpenAI GPT-4.1 Mini'', provider = str ''openai'',
           model = str ''gpt-4.1-mini-2025-04-14'', isAvailable = True\<rparr>]) @
      (if anthropicLLM svc = None then [] else
         [\<lparr>id' = str ''anthropic'', name = str ''Anthropic Claude 3 Haiku'',
           provider = str ''anthropic'', model = str ''claude-3-haiku-20240307'',
           isAvailable = True\<rparr>])" for svc
    by (simp add: getAvailableLLMs_def split: option.split)
  show ?thesis
    unfolding shape openai anthropic using assms by simp
qed

theorem getAvailableLLMs_independent_of_credentials_witness:
  "configured (OPENAI_API_KEY \<lparr>OPENAI_API_KEY = Some (str ''sk-first''), ANTHROPIC_API_KEY = None,
       AWS_S3_BUCKET = None, AWS_REGION = None, PG_DATABASE = None\<rparr>)
   = configured (OPENAI_API_KEY \<lparr>OPENAI_API_KEY = Some (str ''sk-second''), ANTHROPIC_API_KEY = Some [],
       AWS_S3_BUCKET = None, AWS_REGION = None, PG_DATABASE = None\<rparr>)
   \<and> getAvailableLLMs (initializeLLMs \<lparr>OPENAI_API_KEY = Some (str ''sk-first''), ANTHROPIC_API_KEY = None,
       AWS_S3_BUCKET = None, AWS_REGION = None, PG_DATABASE = None\<rparr>)
   = getAvailableLLMs (initializeLLMs \<lparr>OPENAI_API_KEY = Some (str ''sk-second''), ANTHROPIC_API_KEY = Some [],
       AWS_S3_BUCKET = None, AWS_REGION = None, PG_DATABASE = None\<rparr>)
   \<and> length (getAvailableLLMs (initializeLLMs \<lparr>OPENAI_API_KEY = Some (str ''sk-first''),
       ANTHROPIC_API_KEY = None, AWS_S3_BUCKET = None, AWS_REGION = None, PG_DATABASE = None\<rparr>)) = 1"
proof -
  have "getAvailableLLMs (initializeLLMs \<lparr>OPENAI_API_KEY = Some (str ''sk-first''), ANTHROPIC_API_KEY = None,
       AWS_S3_BUCKET = None, AWS_REGION = None, PG_DATABASE = None\<rparr>)
   = getAvailableLLMs (initializeLLMs \<lparr>OPENAI_API_KEY = Some (str ''sk-second''), ANTHROPIC_API_KEY = Some [],
       AWS_S3_BUCKET = None, AWS_REGION = None, PG_DATABASE = None\<rparr>)"
    by (rule getAvailableLLMs_independent_of_credentials) (simp_all add: configured_def str_def)
  then show ?thesis
    by (simp add: configured_def str_def getAvailableLLMs_def initializeLLMs_def)
qed

section \<open>Export tool: validation of the arguments\<close>






section \<open>Export tool: the size limit\<close>

lemma fileSizeMB_over_50: "(fileSizeMB buf > 50) = (50 * 1024 * 1024 < length buf)"
proof -
  have "(fileSizeMB buf > 50) = ((50::rat) * (1024 * 1024) < of_nat (length buf))"
    by (simp add: fileSizeMB_def pos_less_divide_eq)
  also have "\<dots> = (of_nat (50 * 1024 * 1024) < (of_nat (length buf) :: rat))"
    by simp
  also have "\<dots> = (50 * 1024 * 1024 < length buf)"
    by (rule of_nat_less_iff)
  finally show ?thesis .
qed

lemma tooLargeMessage_largeBuffer:
  "tooLargeMessage largeBuffer =
     str ''File too large (50.00MB). Please limit your query results to reduce file size.''"
proof -
  have "\<lfloor>(52428801::rat) / (1024 * 1024) * 100 + 1 / 2\<rfloor> = 5000"
    by (rule floor_unique) simp_all
  then show ?thesis
    by (simp add: tooLargeMessage_def toFixed2_def fileSizeMB_def largeBuffer_def twoDigits_def
        natToString.simps str_def)
qed

text \<open>
  C4. When the rows are a non-empty array and the workbook written for them is longer
  than 50 MB (\<open>50 * 1024 * 1024\<close> bytes), the tool returns the size-limit text and makes
  no call to the object storage.
\<close>

theorem func_rejects_large_workbook:
  assumes "data args = JArray rows" and "rows \<noteq> []"
    and "xlsxWrite rows (sanitizeSheetName (sheetName args)) = Inr buf"
    and "50 * 1024 * 1024 < length buf"
  shows "func env clk xlsxWrite s3 args calls = (Text (tooLargeMessage buf), calls)"
  using assms by (simp add: func_def exportRows_def fileSizeMB_over_50)

theorem func_rejects_large_workbook_witness:
  "data exampleArgs = JArray [JObject [(str ''status'', JString (str ''open''))]]
   \<and> largeWorkbook [JObject [(str ''status'', JString (str ''open''))]]
         (sanitizeSheetName (sheetName exampleArgs)) = Inr largeBuffer
   \<and> 50 * 1024 * 1024 < length largeBuffer
   \<and> func exampleEnv exampleClock largeWorkbook alwaysFails exampleArgs [] =
       (Text (str ''File too large (50.00MB). Please limit your query results to reduce file size.''), [])"
proof -
  have d: "data exampleArgs = JArray [JObject [(str ''status'', JString (str ''open''))]]"
    by (simp add: exampleArgs_def)
  have w: "largeWorkbook [JObject [(str ''status'', JString (str ''open''))]]
         (sanitizeSheetName (sheetName exampleArgs)) = Inr largeBuffer"
    by (simp add: largeWorkbook_def)
  have n: "50 * 1024 * 1024 < length largeBuffer"
    by (simp add: largeBuffer_def)
  have "func exampleEnv exampleClock largeWorkbook alwaysFails exampleArgs [] =
       (Text (tooLargeMessage largeBuffer), [])"
    using d w n
      func_rejects_large_workbook [where args = exampleArgs and xlsxWrite = largeWorkbook
        and buf = largeBuffer and env = exampleEnv and clk = exampleClock and ?s3.0 = alwaysFails
        and calls = "[]" and rows = "[JObject [(str ''status'', JString (str ''open''))]]"]
    by simp
  with d w n show ?thesis
    by (simp only: tooLargeMessage_largeBuffer simp_thms)
qed

section \<open>Export tool: the retry loop\<close>

lemma uploadLoop_first:
  "uploadLoop s3 cmd 0 calls =
     (case s3 calls cmd of
        Inr _ \<Rightarrow> (Inr (), calls @ [Send cmd])
      | Inl _ \<Rightarrow> uploadLoop s3 cmd (Suc 0) (calls @ [Send cmd, Sleep 2000]))"
  by (subst uploadLoop.simps) (simp add: maxRetries_def split: sum.split)

lemma uploadLoop_second:
  "uploadLoop s3 cmd (Suc 0) calls =
     (case s3 calls cmd of
        Inr _ \<Rightarrow> (Inr (), calls @ [Send cmd])
      | Inl _ \<Rightarrow> uploadLoop s3 cmd (Suc (Suc 0)) (calls @ [Send cmd, Sleep 4000]))"
  by (subst uploadLoop.simps) (simp add: maxRetries_def split: sum.split)

lemma uploadLoop_third:
  "uploadLoop s3 cmd (Suc (Suc 0)) calls =
     (case s3 calls cmd of
        Inr _ \<Rightarrow> (Inr (), calls @ [Send cmd])
      | Inl uploadError \<Rightarrow>
          (Inl (newError (str ''S3 upload failed after 3 attempts: '' @ message uploadError)),
           calls @ [Send cmd]))"
  by (subst uploadLoop.simps)
     (simp add: maxRetries_def natToString.simps str_def split: sum.split)

text \<open>
  C5. The retry loop makes at most three \<open>send\<close> calls, waiting 2000 ms and then
  4000 ms between them. When the first two fail and the third succeeds it succeeds after
  exactly these three; when all three fail it throws the aggregate error, made from the
  message of the last failure, after exactly three.
\<close>

theorem uploadLoop_retry:
  "(s3 calls cmd = Inl e1 \<and> s3 (calls @ [Send cmd, Sleep 2000]) cmd = Inl e2 \<and>
    s3 (calls @ [Send cmd, Sleep 2000, Send cmd, Sleep 4000]) cmd = Inr ()
    \<longrightarrow> uploadLoop s3 cmd 0 calls =
          (Inr (), calls @ [Send cmd, Sleep 2000, Send cmd, Sleep 4000, Send cmd]))
   \<and> (s3 calls cmd = Inl e1 \<and> s3 (calls @ [Send cmd, Sleep 2000]) cmd = Inl e2 \<and>
      s3 (calls @ [Send cmd, Sleep 2000, Send cmd, Sleep 4000]) cmd = Inl e3
      \<longrightarrow> uploadLoop s3 cmd 0 calls =
            (Inl (newError (str ''S3 upload failed after 3 attempts: '' @ message e3)),
             calls @ [Send cmd, Sleep 2000, Send cmd, Sleep 4000, Send cmd]))
   \<and> sends (snd (uploadLoop s3 cmd 0 calls)) \<le> sends calls + 3"
proof -
  have bound: "sends (snd (uploadLoop s3 cmd 0 calls)) \<le> sends calls + 3"
    by (simp add: uploadLoop_first uploadLoop_second uploadLoop_third sends_def split: sum.split)
  show ?thesis
    using bound by (simp add: uploadLoop_first uploadLoop_second uploadLoop_third)
qed

theorem uploadLoop_retry_witness:
  "failsTwice [] exampleCommand = Inl (newError (str ''socket hang up''))
   \<and> failsTwice [Send exampleCommand, Sleep 2000] exampleCommand = Inl (newError (str ''socket hang up''))
   \<and> failsTwice [Send exampleCommand, Sleep 2000, Send exampleCommand, Sleep 4000] exampleCommand = Inr ()
   \<and> uploadLoop failsTwice exampleCommand 0 [] =
       (Inr (), [Send exampleCommand, Sleep 2000, Send exampleCommand, Sleep 4000, Send exampleCommand])
   \<and> alwaysFails [Send exampleCommand, Sleep 2000, Send exampleCommand, Sleep 4000] exampleCommand
       = Inl (newError (str ''socket hang up''))
   \<and> uploadLoop alwaysFails exampleCommand 0 [] =
       (Inl (newError (str ''S3 upload failed after 3 attempts: socket hang up'')),
        [Send exampleCommand, Sleep 2000, Send exampleCommand, Sleep 4000, Send exampleCommand])"
  using uploadLoop_retry [of failsTwice "[]" exampleCommand "newError (str ''socket hang up'')"
      "newError (str ''socket hang up'')" "newError (str ''socket hang up'')"]
    uploadLoop_retry [of alwaysFails "[]" exampleCommand "newError (str ''socket hang up'')"
      "newError (str ''socket hang up'')" "newError (str ''socket hang up'')"]
  by (simp add: failsTwice_def alwaysFails_def sends_def newError_def str_def)

section \<open>Sanitizing sheet names and file names\<close>

lemma trim_Nil: "trim [] = []"
  by (simp add: trim_def)

lemma trim_prefix:
  "dropWhile isWhiteSpace s = trim s @ rev (takeWhile isWhiteSpace (rev (dropWhile isWhiteSpace s)))"
proof -
  let ?t = "dropWhile isWhiteSpace s"
  have "trim s @ rev (takeWhile isWhiteSpace (rev ?t)) =
        rev (takeWhile isWhiteSpace (rev ?t) @ dropWhile isWhiteSpace (rev ?t))"
    by (simp only: trim_def rev_append)
  also have "\<dots> = ?t"
    by (simp only: takeWhile_dropWhile_id rev_rev_ident)
  finally show ?thesis by simp
qed

lemma trim_hd: "trim s \<noteq> [] \<Longrightarrow> \<not> isWhiteSpace (hd (trim s))"
proof -
  assume ne: "trim s \<noteq> []"
  have "hd (dropWhile isWhiteSpace s) = hd (trim s)"
    using ne by (subst trim_prefix) simp
  moreover have "dropWhile isWhiteSpace s \<noteq> []"
  proof
    assume "dropWhile isWhiteSpace s = []"
    then have "trim s = []" by (simp only: trim_def rev.simps dropWhile.simps)
    with ne show False ..
  qed
  ultimately show ?thesis
    using hd_dropWhile [of isWhiteSpace s] by simp
qed

lemma trim_last: "trim s \<noteq> [] \<Longrightarrow> \<not> isWhiteSpace (last (trim s))"
  unfolding trim_def by (simp add: last_rev hd_dropWhile)

lemma trim_fixed: "s \<noteq> [] \<Longrightarrow> \<not> isWhiteSpace (hd s) \<Longrightarrow> \<not> isWhiteSpace (last s) \<Longrightarrow> trim s = s"
proof -
  assume a: "s \<noteq> []" "\<not> isWhiteSpace (hd s)" "\<not> isWhiteSpace (last s)"
  have 1: "dropWhile isWhiteSpace s = s"
    using a by (cases s) simp_all
  have "dropWhile isWhiteSpace (rev s) = rev s"
    using a by (cases "rev s") (simp_all add: hd_rev)
  with 1 show ?thesis by (simp add: trim_def)
qed

lemma trim_idem: "trim (trim s) = trim s"
  by (cases "trim s = []") (simp_all add: trim_Nil trim_fixed trim_hd trim_last)

lemma trim_nonempty: "s \<noteq> [] \<Longrightarrow> \<not> isWhiteSpace (hd s) \<Longrightarrow> trim s \<noteq> []"
  by (cases s) (simp_all add: trim_def)

lemma set_trim: "set (trim s) \<subseteq> set s"
proof -
  have "set (trim s) \<subseteq> set (dropWhile isWhiteSpace s)"
    unfolding trim_def using set_dropWhileD by fastforce
  then show ?thesis using set_dropWhileD by fastforce
qed

lemma length_trim: "length (trim s) \<le> length s"
proof -
  have "length (trim s) \<le> length (dropWhile isWhiteSpace s)"
    unfolding trim_def
    using length_dropWhile_le [of isWhiteSpace "rev (dropWhile isWhiteSpace s)"] by simp
  then show ?thesis using length_dropWhile_le [of isWhiteSpace s] by simp
qed

lemma replaceClass_id: "(\<And>c. c \<in> set s \<Longrightarrow> \<not> cls c) \<Longrightarrow> replaceClass cls r s = s"
  by (induction s) (simp_all add: replaceClass_def)

lemma replaceClass_clean: "\<not> cls r \<Longrightarrow> c \<in> set (replaceClass cls r s) \<Longrightarrow> \<not> cls c"
  by (auto simp: replaceClass_def split: if_splits)

lemma Report_facts:
  "str ''Report'' \<noteq> []" "\<not> isWhiteSpace (hd (str ''Report''))" "\<not> isWhiteSpace (last (str ''Report''))"
  "length (str ''Report'') \<le> 31" "c \<in> set (str ''Report'') \<Longrightarrow> \<not> invalidSheetChar c"
  by (auto simp: str_def isWhiteSpace_def invalidSheetChar_def)

lemma cleaned_valid: "c \<in> set (cleaned sheet) \<Longrightarrow> \<not> invalidSheetChar c"
proof -
  assume "c \<in> set (cleaned sheet)"
  then have "c \<in> set (replaceClass invalidSheetChar (of_char CHR '' '') (orElse sheet (str ''Report'')))"
    unfolding cleaned_def using set_trim by blast
  then show ?thesis
    by (rule replaceClass_clean [rotated]) (simp add: invalidSheetChar_def)
qed

lemma sanitizeSheetName_cases:
  "sanitizeSheetName sheet = (if take 31 (cleaned sheet) = [] then str ''Report'' else take 31 (cleaned sheet))"
  by (simp add: sanitizeSheetName_def orElse_def)

lemma sanitizeSheetName_nonempty: "sanitizeSheetName sheet \<noteq> []"
  by (simp add: sanitizeSheetName_cases Report_facts)

lemma sanitizeSheetName_valid: "c \<in> set (sanitizeSheetName sheet) \<Longrightarrow> \<not> invalidSheetChar c"
  by (auto simp: sanitizeSheetName_cases Report_facts cleaned_valid dest: in_set_takeD split: if_splits)

lemma sanitizeSheetName_length: "length (sanitizeSheetName sheet) \<le> 31"
  by (simp add: sanitizeSheetName_cases Report_facts)

lemma sanitizeSheetName_hd: "\<not> isWhiteSpace (hd (sanitizeSheetName sheet))"
proof (cases "take 31 (cleaned sheet) = []")
  case True
  then show ?thesis by (simp add: sanitizeSheetName_cases Report_facts)
next
  case False
  then have ne: "cleaned sheet \<noteq> []" by auto
  then have "\<not> isWhiteSpace (hd (cleaned sheet))"
    unfolding cleaned_def by (rule trim_hd)
  moreover have "hd (take 31 (cleaned sheet)) = hd (cleaned sheet)"
    using ne by (cases "cleaned sheet") simp_all
  ultimately show ?thesis using False by (simp add: sanitizeSheetName_cases)
qed

lemma resanitize_is_trim:
  "sanitizeSheetName (Some (sanitizeSheetName sheet)) = trim (sanitizeSheetName sheet)"
proof -
  let ?r = "sanitizeSheetName sheet"
  have "orElse (Some ?r) (str ''Report'') = ?r"
    by (simp add: orElse_def sanitizeSheetName_nonempty)
  moreover have "replaceClass invalidSheetChar (of_char CHR '' '') ?r = ?r"
    by (rule replaceClass_id) (rule sanitizeSheetName_valid)
  ultimately have c: "cleaned (Some ?r) = trim ?r"
    by (simp add: cleaned_def)
  have "length (trim ?r) \<le> 31"
    using length_trim [of ?r] sanitizeSheetName_length [of sheet] by simp
  then have t: "take 31 (cleaned (Some ?r)) = trim ?r"
    by (simp add: c)
  have ne: "trim ?r \<noteq> []"
    by (rule trim_nonempty) (rule sanitizeSheetName_nonempty, rule sanitizeSheetName_hd)
  show ?thesis
    unfolding sanitizeSheetName_cases [of "Some (sanitizeSheetName sheet)"]
    by (simp only: t ne if_False)
qed

lemma sanitizeSheetName_short_idem:
  assumes "length (cleaned sheet) \<le> 31"
  shows "sanitizeSheetName (Some (sanitizeSheetName sheet)) = sanitizeSheetName sheet"
proof -
  have "trim (sanitizeSheetName sheet) = sanitizeSheetName sheet"
  proof (cases "cleaned sheet = []")
    case True
    then show ?thesis
      by (simp add: sanitizeSheetName_cases trim_fixed Report_facts)
  next
    case False
    with assms have "sanitizeSheetName sheet = cleaned sheet"
      by (simp add: sanitizeSheetName_cases)
    then show ?thesis
      by (simp add: cleaned_def trim_idem)
  qed
  then show ?thesis by (simp add: resanitize_is_trim)
qed

lemma safe_underscore: "safeFilenameChar (of_char CHR ''_'')"
  by (simp add: safeFilenameChar_def)

lemma replaceUnsafe_safe: "c \<in> set (replaceUnsafe s) \<Longrightarrow> safeFilenameChar c"
  using replaceClass_clean [of "\<lambda>c. \<not> safeFilenameChar c" "of_char CHR ''_''" c s] safe_underscore
  by (auto simp: replaceUnsafe_def)

lemma sanitizeFilename_safe: "c \<in> set (sanitizeFilename clk fname) \<Longrightarrow> safeFilenameChar c"
  unfolding sanitizeFilename_def by (blast dest: in_set_takeD replaceUnsafe_safe)

lemma sanitizeFilename_fixed:
  "take 200 (replaceUnsafe (sanitizeFilename clk fname)) = sanitizeFilename clk fname"
proof -
  have "replaceUnsafe (sanitizeFilename clk fname) = sanitizeFilename clk fname"
    unfolding replaceUnsafe_def
    by (rule replaceClass_id) (simp add: sanitizeFilename_safe)
  then show ?thesis by (simp add: sanitizeFilename_def)
qed

lemma sheet_once:
  "sanitizeSheetName (Some (str ''Open orders by customer region Q3'')) = str ''Open orders by customer region ''"
  by (simp add: sanitizeSheetName_def cleaned_def orElse_def replaceClass_def trim_def
      isWhiteSpace_def invalidSheetChar_def str_def)

lemma sheet_twice:
  "sanitizeSheetName (Some (str ''Open orders by customer region '')) = str ''Open orders by customer region''"
  by (simp add: sanitizeSheetName_def cleaned_def orElse_def replaceClass_def trim_def
      isWhiteSpace_def invalidSheetChar_def str_def)

lemma intToString_exampleClock: "intToString (getTime exampleClock) = str ''1763805600000''"
  by (simp add: exampleClock_def intToString_def natToString.simps str_def)

lemma file_once:
  "sanitizeFilename exampleClock (str ''report'') = str ''report_1763805600000.xlsx''"
  by (simp add: sanitizeFilename_def base_def intToString_exampleClock endsWith_def toLowerCase_def
      replaceUnsafe_def replaceClass_def safeFilenameChar_def str_def)

lemma file_twice:
  "sanitizeFilename exampleClock (str ''report_1763805600000.xlsx'') =
     str ''report_1763805600000_1763805600000.xlsx''"
  by (simp add: sanitizeFilename_def base_def intToString_exampleClock endsWith_def toLowerCase_def
      split_def replaceUnsafe_def replaceClass_def safeFilenameChar_def str_def)

text \<open>
  C6, as stated, fails for both sanitizers: truncation to 31 characters can leave a
  trailing space that the second application trims, and each application of the file
  name sanitizer appends a time stamp.
\<close>

theorem sanitize_not_idempotent:
  "sanitizeSheetName (Some (sanitizeSheetName (Some (str ''Open orders by customer region Q3''))))
     \<noteq> sanitizeSheetName (Some (str ''Open orders by customer region Q3''))
   \<and> sanitizeFilename exampleClock (sanitizeFilename exampleClock (str ''report''))
     \<noteq> sanitizeFilename exampleClock (str ''report'')"
  unfolding sheet_once sheet_twice file_once file_twice
  by (simp add: str_def)

text \<open>
  C6, amended. Sanitizing a sanitized sheet name only trims it, so sheet-name
  sanitization is idempotent whenever the cleaned name has at most 31 characters and
  nothing is cut; a sanitized file name is left unchanged by the replacement of unsafe
  characters and the truncation to 200 characters.
\<close>

theorem sanitize_idempotent_without_truncation:
  "sanitizeSheetName (Some (sanitizeSheetName sheet)) = trim (sanitizeSheetName sheet)
   \<and> (length (cleaned sheet) \<le> 31 \<longrightarrow>
        sanitizeSheetName (Some (sanitizeSheetName sheet)) = sanitizeSheetName sheet)
   \<and> take 200 (replaceUnsafe (sanitizeFilename clk fname)) = sanitizeFilename clk fname"
  using resanitize_is_trim [of sheet] sanitizeSheetName_short_idem [of sheet]
    sanitizeFilename_fixed [of clk fname]
  by blast

theorem sanitize_idempotent_without_truncation_witness:
  "length (cleaned (Some (str ''Q3: open/closed orders''))) \<le> 31
   \<and> sanitizeSheetName (Some (str ''Q3: open/closed orders'')) = str ''Q3  open closed orders''
   \<and> sanitizeSheetName (Some (sanitizeSheetName (Some (str ''Q3: open/closed orders''))))
       = sanitizeSheetName (Some (str ''Q3: open/closed orders''))"
proof -
  have c: "cleaned (Some (str ''Q3: open/closed orders'')) = str ''Q3  open closed orders''"
    by (simp add: cleaned_def orElse_def replaceClass_def trim_def isWhiteSpace_def
        invalidSheetChar_def str_def)
  have l: "length (cleaned (Some (str ''Q3: open/closed orders''))) \<le> 31"
    unfolding c by (simp add: str_def)
  have v: "sanitizeSheetName (Some (str ''Q3: open/closed orders'')) = str ''Q3  open closed orders''"
    unfolding sanitizeSheetName_def c by (simp add: orElse_def str_def)
  show ?thesis
    using l v sanitize_idempotent_without_truncation
      [of "Some (str ''Q3: open/closed orders'')" exampleClock "str ''report''"]
    by blast
qed

section \<open>The object key of an export\<close>

lemma slash_not_safe: "\<not> safeFilenameChar (of_char CHR ''/'')"
  by (simp add: safeFilenameChar_def)

lemma finalFilename_no_slash: "of_char CHR ''/'' \<notin> set (finalFilename env clk file)"
  unfolding finalFilename_def using sanitizeFilename_safe slash_not_safe by blast

lemma last_separator_unique:
  assumes "x \<notin> set f1" and "x \<notin> set f2" and "a @ x # f1 = b @ x # f2"
  shows "a = b"
proof -
  have "rev (a @ x # f1) = rev (b @ x # f2)"
    using assms(3) by simp
  then have eq: "rev f1 @ x # rev a = rev f2 @ x # rev b"
    by simp
  have stop: "takeWhile (\<lambda>c. c \<noteq> x) (f @ x # r) = f" if "x \<notin> set f" for f r
  proof -
    have "takeWhile (\<lambda>c. c \<noteq> x) (f @ x # r) = f @ takeWhile (\<lambda>c. c \<noteq> x) (x # r)"
      by (rule takeWhile_append2) (use that in auto)
    then show ?thesis by simp
  qed
  have "takeWhile (\<lambda>c. c \<noteq> x) (rev f1 @ x # rev a) = rev f1"
    using assms(1) by (simp add: stop)
  moreover have "takeWhile (\<lambda>c. c \<noteq> x) (rev f2 @ x # rev b) = rev f2"
    using assms(2) by (simp add: stop)
  ultimately have "rev f1 = rev f2"
    using eq by simp
  with eq show ?thesis by simp
qed

text \<open>
  C8, as stated, fails: two turns on different databases, exporting in the same process
  under the same file name at the same millisecond, get the same object key.
\<close>

theorem turnObjectKey_collision:
  "database (turnConnection salesTurn) \<noteq> database (turnConnection hrTurn)
   \<and> turnObjectKey exampleEnv exampleClock salesTurn = turnObjectKey exampleEnv exampleClock hrTurn"
  by (simp add: salesTurn_def hrTurn_def salesConfig_def turnObjectKey_def str_def)

text \<open>
  C8, amended. The object key is \<open>reports/\<close>, the data-source identifier of the
  process (\<open>PG_DATABASE\<close>, or \<open>db\<close> when it is unset or empty), \<open>/\<close> and the sanitized file
  name; exports made under different identifiers get different keys.
\<close>

theorem objectKey_distinct_identifiers:
  "objectKey env clk file = str ''reports/'' @ dataSourceId env @ str ''/'' @ finalFilename env clk file
   \<and> (dataSourceId env1 \<noteq> dataSourceId env2 \<longrightarrow> objectKey env1 clk1 file1 \<noteq> objectKey env2 clk2 file2)"
proof -
  have "dataSourceId env1 = dataSourceId env2"
    if "objectKey env1 clk1 file1 = objectKey env2 clk2 file2"
  proof (rule last_separator_unique)
    show "of_char CHR ''/'' \<notin> set (finalFilename env1 clk1 file1)"
      by (rule finalFilename_no_slash)
    show "of_char CHR ''/'' \<notin> set (finalFilename env2 clk2 file2)"
      by (rule finalFilename_no_slash)
    show "dataSourceId env1 @ of_char CHR ''/'' # finalFilename env1 clk1 file1 =
          dataSourceId env2 @ of_char CHR ''/'' # finalFilename env2 clk2 file2"
      using that by (simp add: objectKey_def str_def)
  qed
  then show ?thesis
    by (auto simp: objectKey_def)
qed

theorem objectKey_distinct_identifiers_witness:
  "dataSourceId (exampleEnv\<lparr>PG_DATABASE := Some (str ''sales'')\<rparr>) \<noteq> dataSourceId exampleEnv
   \<and> objectKey (exampleEnv\<lparr>PG_DATABASE := Some (str ''sales'')\<rparr>) exampleClock None
       \<noteq> objectKey exampleEnv exampleClock None
   \<and> dataSourceId exampleEnv = str ''db''"
proof -
  have d: "dataSourceId (exampleEnv\<lparr>PG_DATABASE := Some (str ''sales'')\<rparr>) \<noteq> dataSourceId exampleEnv"
    by (simp add: dataSourceId_def orElse_def exampleEnv_def str_def)
  have v: "dataSourceId exampleEnv = str ''db''"
    by (simp add: dataSourceId_def orElse_def exampleEnv_def)
  have "dataSourceId (exampleEnv\<lparr>PG_DATABASE := Some (str ''sales'')\<rparr>) \<noteq> dataSourceId exampleEnv
      \<longrightarrow> objectKey (exampleEnv\<lparr>PG_DATABASE := Some (str ''sales'')\<rparr>) exampleClock None
          \<noteq> objectKey exampleEnv exampleClock None"
    using objectKey_distinct_identifiers
      [of exampleEnv exampleClock None "exampleEnv\<lparr>PG_DATABASE := Some (str ''sales'')\<rparr>"
          exampleEnv exampleClock None exampleClock None]
    by (rule conjunct2)
  with d v show ?thesis
    by blast
qed

section \<open>Connection resolver: what is validated and what is connected to\<close>

lemma parseTables_orders: "parseTables (str ''table_name'' @ [10] @ str ''orders'') = [str ''orders'']"
  by (simp add: parseTables_def truthyNames_def leadingColumn_def split_def trim_def
      isWhiteSpace_def str_def)

lemma getSqlDatabase_ordersDatabase:
  "getSqlDatabase ordersDatabase (Some config) [] =
     (Inr \<lparr>allTables = [str ''orders'', str ''order_totals''], dbIncludesTables = [], dbIgnoreTables = []\<rparr>,
      [Connect (basicOptions config), Run (getTablesQuery (type config)),
       Connect (options config), Run (getTestQuery (type config))])"
  by (simp add: getSqlDatabase_def ordersDatabase_def Let_def options_def)

lemma getSqlDatabase_no_table_list:
  "list_all (\<lambda>opts. includesTables opts = None \<and> (ignoreTables opts = None \<or> ignoreTables opts = Some []))
     (connects (drop (length calls) (snd (getSqlDatabase drv (Some config) calls))))"
  by (simp add: getSqlDatabase_def Let_def connects_def basicOptions_def options_def split: sum.split)

text \<open>
  C1 fails on the code. No connection that \<open>getSqlDatabase\<close> opens is given a list of
  tables, whatever the enumeration found; on the example the enumeration confirms the
  table \<open>orders\<close> only, and the connection returned offers the view \<open>order_totals\<close> as
  well.
\<close>

theorem getSqlDatabase_final_connection_unrestricted:
  "list_all (\<lambda>opts. includesTables opts = None \<and> (ignoreTables opts = None \<or> ignoreTables opts = Some []))
     (connects (drop (length calls) (snd (getSqlDatabase drv (Some config) calls))))
   \<and> existingTables ordersDatabase [Connect (basicOptions salesConfig)]
     \<lparr>allTables = [str ''orders'', str ''order_totals''], dbIncludesTables = [], dbIgnoreTables = []\<rparr>
     (type salesConfig) = [str ''orders'']
   \<and> fst (getSqlDatabase ordersDatabase (Some salesConfig) []) =
       Inr \<lparr>allTables = [str ''orders'', str ''order_totals''], dbIncludesTables = [], dbIgnoreTables = []\<rparr>
   \<and> usableTables \<lparr>allTables = [str ''orders'', str ''order_totals''], dbIncludesTables = [],
         dbIgnoreTables = []\<rparr> = [str ''orders'', str ''order_totals'']
   \<and> \<not> set [str ''orders'', str ''order_totals''] \<subseteq> set [str ''orders'']
   \<and> includesTables (options salesConfig) = None \<and> ignoreTables (options salesConfig) = None"
proof -
  have "existingTables ordersDatabase [Connect (basicOptions salesConfig)]
     \<lparr>allTables = [str ''orders'', str ''order_totals''], dbIncludesTables = [], dbIgnoreTables = []\<rparr>
     (type salesConfig) = [str ''orders'']"
    using parseTables_orders by (simp add: existingTables_def ordersDatabase_def salesConfig_def)
  moreover have "\<not> set [str ''orders'', str ''order_totals''] \<subseteq> set [str ''orders'']"
    by (simp add: str_def)
  ultimately show ?thesis
    using getSqlDatabase_no_table_list [of calls drv config]
    by (simp add: getSqlDatabase_ordersDatabase usableTables_def options_def)
qed

text \<open>
  C2, as stated, fails: a configuration with an empty host is not rejected; both
  connections are opened with it.
\<close>

theorem getSqlDatabase_accepts_empty_host:
  "host (salesConfig\<lparr>host := []\<rparr>) = []
   \<and> getSqlDatabase ordersDatabase (Some (salesConfig\<lparr>host := []\<rparr>)) [] =
       (Inr \<lparr>allTables = [str ''orders'', str ''order_totals''], dbIncludesTables = [], dbIgnoreTables = []\<rparr>,
        [Connect (basicOptions (salesConfig\<lparr>host := []\<rparr>)), Run (getTablesQuery (str ''postgres'')),
         Connect (options (salesConfig\<lparr>host := []\<rparr>)), Run (str ''SELECT 1 as test'')])
   \<and> host (appDataSourceOptions (basicOptions (salesConfig\<lparr>host := []\<rparr>))) = []"
  by (simp add: getSqlDatabase_ordersDatabase salesConfig_def getTestQuery_def basicOptions_def)

lemma config_fields:
  "appDataSourceOptions (basicOptions config) = config" "appDataSourceOptions (options config) = config"
  by (simp_all add: basicOptions_def options_def)

text \<open>
  C2, amended. Only the absence of the whole configuration is rejected, with a
  configuration error and before any call to the database library. For a configuration
  that is supplied no field is checked: the resolver goes on to open the first
  connection, and every connection it opens has exactly the fields supplied, no default
  in place of any of them.
\<close>

theorem getSqlDatabase_requires_config_only:
  "getSqlDatabase drv None calls =
     (Inl (newError (str ''Database connection configuration is required. Please provide valid connection details.'')),
      calls)
   \<and> take (Suc (length calls)) (snd (getSqlDatabase drv (Some config) calls)) =
       calls @ [Connect (basicOptions config)]
   \<and> list_all (\<lambda>opts. appDataSourceOptions opts = config)
       (connects (drop (length calls) (snd (getSqlDatabase drv (Some config) calls))))"
proof (intro conjI)
  show "getSqlDatabase drv None calls =
     (Inl (newError (str ''Database connection configuration is required. Please provide valid connection details.'')),
      calls)"
    by (simp add: getSqlDatabase_def)
  show "take (Suc (length calls)) (snd (getSqlDatabase drv (Some config) calls)) =
       calls @ [Connect (basicOptions config)]"
    by (simp add: getSqlDatabase_def Let_def split: sum.split)
  show "list_all (\<lambda>opts. appDataSourceOptions opts = config)
       (connects (drop (length calls) (snd (getSqlDatabase drv (Some config) calls))))"
    by (simp add: getSqlDatabase_def Let_def connects_def config_fields split: sum.split)
qed

section \<open>The table list of the enumeration result\<close>

lemma splitOn_newline: "splitOn [10] s = linesOf s"
  by (induction s) simp_all

lemma splitOn_nonempty: "splitOn sep s \<noteq> []"
  by (induction sep s rule: splitOn.induct) (auto split: list.splits)

lemma splitOn_single_hd: "splitOn [x] s = p # ps \<Longrightarrow> p = takeWhile (\<lambda>c. c \<noteq> x) s"
proof (induction s arbitrary: p ps)
  case Nil
  then show ?case by simp
next
  case (Cons c cs)
  then show ?case
    using splitOn_nonempty [of "[x]" cs] by (auto split: if_splits list.splits)
qed

lemma trim_eq_Nil: "(trim s = []) = list_all isWhiteSpace s"
proof
  assume "list_all isWhiteSpace s"
  then have "dropWhile isWhiteSpace s = []"
    by (simp add: list_all_iff)
  then show "trim s = []"
    by (simp only: trim_def rev.simps dropWhile.simps)
next
  assume "trim s = []"
  have "dropWhile isWhiteSpace s = []"
  proof (rule ccontr)
    assume ne: "dropWhile isWhiteSpace s \<noteq> []"
    then have "\<not> isWhiteSpace (hd (dropWhile isWhiteSpace s))"
      by (rule hd_dropWhile)
    moreover have "hd (dropWhile isWhiteSpace s) \<in> set (rev (dropWhile isWhiteSpace s))"
      using ne by simp
    ultimately have "dropWhile isWhiteSpace (rev (dropWhile isWhiteSpace s)) \<noteq> []"
      by auto
    with \<open>trim s = []\<close> show False
      by (simp add: trim_def)
  qed
  then show "list_all isWhiteSpace s"
    by (simp add: list_all_iff)
qed

lemma trim_drop_leading: "list_all isWhiteSpace w \<Longrightarrow> trim (w @ s) = trim s"
  by (simp add: trim_def list_all_iff)

lemma trim_drop_trailing:
  assumes "list_all isWhiteSpace w"
  shows "trim (s @ w) = trim s"
proof (cases "list_all isWhiteSpace s")
  case True
  then have "trim s = []" by (simp add: trim_eq_Nil)
  moreover have "trim (s @ w) = []"
    using True assms by (simp add: trim_eq_Nil)
  ultimately show ?thesis by simp
next
  case False
  then obtain x where "x \<in> set s" "\<not> isWhiteSpace x"
    by (auto simp: list_all_iff)
  then have "dropWhile isWhiteSpace (s @ w) = dropWhile isWhiteSpace s @ w"
    by (rule dropWhile_append1)
  moreover have "dropWhile isWhiteSpace (rev w @ r) = dropWhile isWhiteSpace r" for r
    by (rule dropWhile_append2) (use assms in \<open>simp add: list_all_iff\<close>)
  ultimately show ?thesis
    by (simp add: trim_def)
qed

lemma trim_decompose:
  obtains w1 w2 where "s = w1 @ trim s @ w2" "list_all isWhiteSpace w1" "list_all isWhiteSpace w2"
proof
  let ?t = "dropWhile isWhiteSpace s"
  show "s = takeWhile isWhiteSpace s @ trim s @ rev (takeWhile isWhiteSpace (rev ?t))"
    using trim_prefix [of s] takeWhile_dropWhile_id [of isWhiteSpace s] by simp
  show "list_all isWhiteSpace (takeWhile isWhiteSpace s)"
    by (auto simp: list_all_iff dest: set_takeWhileD)
  show "list_all isWhiteSpace (rev (takeWhile isWhiteSpace (rev ?t)))"
    by (auto simp: list_all_iff dest: set_takeWhileD)
qed

lemma bar_not_space: "\<not> isWhiteSpace (of_char CHR ''|'')"
  by (simp add: isWhiteSpace_def)

lemma firstColumn_trim: "firstColumn (trim line) = firstColumn line"
proof -
  let ?Q = "\<lambda>c. c \<noteq> of_char CHR ''|''"
  obtain w1 w2 where l: "line = w1 @ trim line @ w2"
    and w1: "list_all isWhiteSpace w1" and w2: "list_all isWhiteSpace w2"
    by (rule trim_decompose)
  have q1: "\<And>c. c \<in> set w1 \<Longrightarrow> ?Q c" and q2: "\<And>c. c \<in> set w2 \<Longrightarrow> ?Q c"
    using w1 w2 bar_not_space by (auto simp: list_all_iff)
  have "takeWhile ?Q line = takeWhile ?Q (w1 @ trim line @ w2)"
    using l by simp
  also have "\<dots> = w1 @ takeWhile ?Q (trim line @ w2)"
    by (rule takeWhile_append2) (rule q1)
  finally have step: "trim (takeWhile ?Q line) = trim (takeWhile ?Q (trim line @ w2))"
    using w1 by (simp add: trim_drop_leading)
  show ?thesis
  proof (cases "\<exists>c \<in> set (trim line). \<not> ?Q c")
    case True
    then obtain c where "c \<in> set (trim line)" "\<not> ?Q c" by blast
    then have "takeWhile ?Q (trim line @ w2) = takeWhile ?Q (trim line)"
      by (rule takeWhile_append1)
    with step show ?thesis by (simp add: firstColumn_def)
  next
    case False
    then have all: "\<And>c. c \<in> set (trim line) \<Longrightarrow> ?Q c" by blast
    have "takeWhile ?Q (trim line @ w2) = trim line @ w2"
      using all q2 by auto
    with step have "trim (takeWhile ?Q line) = trim (trim line @ w2)"
      by (simp only:)
    also have "\<dots> = trim (trim line)"
      using w2 by (rule trim_drop_trailing)
    finally have left: "trim (takeWhile ?Q line) = trim (trim line)" .
    have "takeWhile ?Q (trim line) = trim line"
      using all by auto
    with left show ?thesis by (simp only: firstColumn_def)
  qed
qed

lemma leadingColumn_eq: "leadingColumn line = Some (trim (takeWhile (\<lambda>c. c \<noteq> of_char CHR ''|'') line))"
proof (cases "splitOn [of_char CHR ''|''] line")
  case Nil
  then show ?thesis using splitOn_nonempty by blast
next
  case (Cons p ps)
  then have "p = takeWhile (\<lambda>c. c \<noteq> of_char CHR ''|'') line"
    by (rule splitOn_single_hd)
  with Cons show ?thesis
    by (simp add: leadingColumn_def split_def str_def)
qed

lemma truthyNames_Some: "truthyNames (map (\<lambda>x. Some (f x)) xs) = filter (\<lambda>t. t \<noteq> []) (map f xs)"
  by (induction xs) (simp_all add: truthyNames_def)

lemma parseTables_refines: "parseTables out = listBaseTables out"
proof -
  have lines: "drop 1 (split out [10]) = tl (linesOf out)"
    by (simp add: split_def splitOn_newline drop_Suc)
  have keep: "filter (\<lambda>line. line \<noteq> [] \<and> line \<noteq> str '''') (map trim ls) =
              map trim (filter (\<lambda>line. \<not> blank line) ls)" for ls
    by (induction ls) (simp_all add: blank_def trim_eq_Nil str_def)
  have col: "map leadingColumn (map trim ls) = map (\<lambda>line. Some (firstColumn line)) ls" for ls
    using firstColumn_trim by (simp add: leadingColumn_eq firstColumn_def)
  show ?thesis
    unfolding parseTables_def listBaseTables_def lines keep col truthyNames_Some ..
qed

text \<open>
  C9. For every result string the parser gives the table names as the specification
  describes them (header skipped, blank lines discarded, leading column taken); it is a
  total function of the string, so no result makes it raise, and when the enumeration
  query itself fails the list of existing tables is empty.
\<close>

theorem parseTables_listBaseTables:
  "parseTables out = listBaseTables out
   \<and> (run drv calls db (getTablesQuery dbType) = Inr out \<longrightarrow>
        existingTables drv calls db dbType = listBaseTables out)
   \<and> (run drv calls db (getTablesQuery dbType) = Inl e \<longrightarrow> existingTables drv calls db dbType = [])"
proof (intro conjI impI)
  show "parseTables out = listBaseTables out"
    by (rule parseTables_refines)
  show "existingTables drv calls db dbType = listBaseTables out"
    if "run drv calls db (getTablesQuery dbType) = Inr out"
    using that by (simp add: existingTables_def parseTables_refines)
  show "existingTables drv calls db dbType = []"
    if "run drv calls db (getTablesQuery dbType) = Inl e"
    using that by (simp add: existingTables_def)
qed

lemma listBaseTables_example:
  "listBaseTables (str ''table_name'' @ [10] @ str '' orders | base '' @ [10] @ [10] @ str ''  '' @
      [10] @ str ''| x'' @ [10] @ str ''users'') = [str ''orders'', str ''users'']"
  by (simp add: listBaseTables_def blank_def firstColumn_def trim_def isWhiteSpace_def str_def)

theorem parseTables_listBaseTables_witness:
  "run ordersDatabase [] \<lparr>allTables = [], dbIncludesTables = [], dbIgnoreTables = []\<rparr>
       (getTablesQuery (str ''postgres'')) = Inr (str ''table_name'' @ [10] @ str ''orders'')
   \<and> existingTables ordersDatabase [] \<lparr>allTables = [], dbIncludesTables = [], dbIgnoreTables = []\<rparr>
       (str ''postgres'') = [str ''orders'']
   \<and> run deniedCatalog [] \<lparr>allTables = [], dbIncludesTables = [], dbIgnoreTables = []\<rparr>
       (getTablesQuery (str ''postgres'')) = Inl (newError (str ''permission denied for relation tables''))
   \<and> existingTables deniedCatalog [] \<lparr>allTables = [], dbIncludesTables = [], dbIgnoreTables = []\<rparr>
       (str ''postgres'') = []
   \<and> parseTables (str ''table_name'' @ [10] @ str '' orders | base '' @ [10] @ [10] @ str ''  '' @
        [10] @ str ''| x'' @ [10] @ str ''users'') = [str ''orders'', str ''users'']"
proof -
  let ?db = "\<lparr>allTables = [], dbIncludesTables = [], dbIgnoreTables = []\<rparr>"
  have ok: "run ordersDatabase [] ?db (getTablesQuery (str ''postgres'')) =
      Inr (str ''table_name'' @ [10] @ str ''orders'')"
    by (simp add: ordersDatabase_def)
  have denied: "run deniedCatalog [] ?db (getTablesQuery (str ''postgres'')) =
      Inl (newError (str ''permission denied for relation tables''))"
    by (simp add: deniedCatalog_def getTablesQuery_def informationSchemaPublic_def str_def)
  have names: "listBaseTables (str ''table_name'' @ [10] @ str ''orders'') = [str ''orders'']"
    by (simp add: listBaseTables_def blank_def firstColumn_def trim_def isWhiteSpace_def str_def)
  have "existingTables ordersDatabase [] ?db (str ''postgres'') =
      listBaseTables (str ''table_name'' @ [10] @ str ''orders'')"
    using ok parseTables_listBaseTables
      [of "str ''table_name'' @ [10] @ str ''orders''" ordersDatabase "[]" ?db "str ''postgres''"]
    by blast
  moreover have "existingTables deniedCatalog [] ?db (str ''postgres'') = []"
    using denied parseTables_listBaseTables
      [of "[]" deniedCatalog "[]" ?db "str ''postgres''"
          "newError (str ''permission denied for relation tables'')"]
    by blast
  moreover have "parseTables (str ''table_name'' @ [10] @ str '' orders | base '' @ [10] @ [10] @
        str ''  '' @ [10] @ str ''| x'' @ [10] @ str ''users'') = [str ''orders'', str ''users'']"
    using listBaseTables_example parseTables_listBaseTables
      [of "str ''table_name'' @ [10] @ str '' orders | base '' @ [10] @ [10] @
        str ''  '' @ [10] @ str ''| x'' @ [10] @ str ''users''" ordersDatabase "[]" ?db "str ''postgres''"]
    by (simp only:)
  ultimately show ?thesis
    using ok denied names by (simp only: simp_thms)
qed

end
